theory Spec2Isabelle
  imports Complex_Main
begin

section \<open>JavaScript values\<close>

text \<open>
  The request body, the values the cost-fetching services settle with and the objects
  handed to \<open>res.json\<close> are JavaScript values. Objects are lists of own data properties
  in insertion order; a property is read with \<open>map_of\<close>. The values are finite trees:
  nothing cyclic, no functions, so \<open>res.json\<close> can serialise each of them.
\<close>

datatype jsval =
    JUndefined
  | JNull
  | JBool bool
  | JNum rat
  | JStr string
  | JArr "jsval list"
  | JObj "(string \<times> jsval) list"

text \<open>
  What the handler itself can throw: the engine's TypeError, raised when a property is
  read from (or destructured out of) \<open>undefined\<close> or \<open>null\<close>.
\<close>

datatype exn = TypeError

text \<open>
  Reading \<open>v.k\<close>, and the destructuring \<open>const { k } = v\<close>. Both throw on \<open>undefined\<close>
  and \<open>null\<close>; on every other value they coerce to an object and yield \<open>undefined\<close> when
  the property is missing. The router reads only \<open>cloudProvider\<close> and \<open>message\<close>; strings,
  numbers, booleans and arrays have neither. An object lists the properties a read finds:
  an error constructed without a message has the \<open>message\<close> of \<open>Error.prototype\<close>, the
  empty string, and is an object that lists it. Other members of the built-in prototypes
  (\<open>length\<close>, methods) are outside the model.
\<close>

fun get_prop :: "jsval \<Rightarrow> string \<Rightarrow> exn + jsval" where
  "get_prop JUndefined k = Inl TypeError"
| "get_prop JNull k = Inl TypeError"
| "get_prop (JObj fs) k = Inr (case map_of fs k of None \<Rightarrow> JUndefined | Some v \<Rightarrow> v)"
| "get_prop v k = Inr JUndefined"


text \<open>\<open>typeof v === 'object' && v !== null\<close>: objects and arrays.\<close>

definition is_object :: "jsval \<Rightarrow> bool" where
  "is_object v = (case v of JObj fs \<Rightarrow> True | JArr xs \<Rightarrow> True | _ \<Rightarrow> False)"

text \<open>
  \<open>JSON.stringify\<close>, read as the value a client parses back from the text: a property
  whose value is \<open>undefined\<close> is left out of its object, an \<open>undefined\<close> element of an
  array becomes \<open>null\<close>.
\<close>

fun stringify :: "jsval \<Rightarrow> jsval"
  and stringify_props :: "(string \<times> jsval) list \<Rightarrow> (string \<times> jsval) list"
  and stringify_elems :: "jsval list \<Rightarrow> jsval list" where
  "stringify (JObj fs) = JObj (stringify_props fs)"
| "stringify (JArr xs) = JArr (stringify_elems xs)"
| "stringify v = v"
| "stringify_props [] = []"
| "stringify_props ((k, v) # fs) =
     (if v = JUndefined then stringify_props fs else (k, stringify v) # stringify_props fs)"
| "stringify_elems [] = []"
| "stringify_elems (x # xs) =
     (if x = JUndefined then JNull else stringify x) # stringify_elems xs"

section \<open>The cost router\<close>

text \<open>
  \<open>awsService.fetchCosts\<close> and \<open>azureService.fetchCosts\<close> are external: each is a
  parameter of the model, a function from its argument to the way the awaited promise
  settles. A promise that never settles leaves the handler suspended at its \<open>await\<close>.
\<close>

datatype settle = Resolved jsval | Rejected jsval | Pending

type_synonym fetchCosts = "jsval \<Rightarrow> settle"

record request =
  body :: jsval

text \<open>
  The response object: \<open>res.status(c)\<close> stores the status code, \<open>res.json(v)\<close> sends
  \<open>v\<close>; \<open>sent\<close> is the object the handler hands to \<open>res.json\<close>, as the handler built
  it. A fresh response has status 200 and nothing sent.
\<close>

record response =
  statusCode :: nat
  sent :: "jsval option"

datatype call = AwsFetchCosts jsval | AzureFetchCosts jsval

text \<open>What a request can change: the log of service invocations and the response.\<close>

record world =
  calls :: "call list"
  res :: response

definition status :: "nat \<Rightarrow> world \<Rightarrow> world" where
  "status c w = w\<lparr>res := (res w)\<lparr>statusCode := c\<rparr>\<rparr>"

definition json :: "jsval \<Rightarrow> world \<Rightarrow> world" where
  "json v w = w\<lparr>res := (res w)\<lparr>sent := Some v\<rparr>\<rparr>"


definition invoke :: "call \<Rightarrow> world \<Rightarrow> world" where
  "invoke c w = w\<lparr>calls := calls w @ [c]\<rparr>"

text \<open>
  How the async handler ends: it returns, it throws (its promise rejects, nothing has
  caught the exception), or it stays suspended at an \<open>await\<close>.
\<close>

datatype outcome = Returned | Threw exn | Suspended

text \<open>
  The \<open>catch\<close> block: \<open>res.status(500).json({ success: false, message: error.message })\<close>.
  \<open>res.status(500)\<close> is evaluated before the argument of \<open>json\<close>, so the status is
  already 500 when reading \<open>error.message\<close> throws.
\<close>

definition catch_block :: "jsval \<Rightarrow> world \<Rightarrow> outcome \<times> world" where
  "catch_block error w =
     (let w1 = status 500 w in
      case get_prop error ''message'' of
        Inl e \<Rightarrow> (Threw e, w1)
      | Inr m \<Rightarrow> (Returned, json (JObj [(''success'', JBool False), (''message'', m)]) w1))"

text \<open>The statement after the \<open>if\<close> chain: \<open>res.json({ success: true, costs })\<close>.\<close>

definition respond_costs :: "jsval \<Rightarrow> world \<Rightarrow> outcome \<times> world" where
  "respond_costs costs w =
     (Returned, json (JObj [(''success'', JBool True), (''costs'', costs)]) w)"

text \<open>\<open>costs = await service.fetchCosts(req.body)\<close> inside the \<open>try\<close> block.\<close>

definition await_costs :: "settle \<Rightarrow> world \<Rightarrow> outcome \<times> world" where
  "await_costs p w =
     (case p of
        Resolved costs \<Rightarrow> respond_costs costs w
      | Rejected error \<Rightarrow> catch_block error w
      | Pending \<Rightarrow> (Suspended, w))"

text \<open>
  The handler of \<open>router.post('/costs', ...)\<close>. The destructuring of \<open>req.body\<close> stands
  before the \<open>try\<close> block, so its TypeError is not caught.
\<close>

definition post_costs :: "fetchCosts \<Rightarrow> fetchCosts \<Rightarrow> request \<Rightarrow> world \<Rightarrow> outcome \<times> world" where
  "post_costs aws azure req w =
     (case get_prop (body req) ''cloudProvider'' of
        Inl e \<Rightarrow> (Threw e, w)
      | Inr cloudProvider \<Rightarrow>
          if cloudProvider = JStr ''aws'' then
            await_costs (aws (body req)) (invoke (AwsFetchCosts (body req)) w)
          else if cloudProvider = JStr ''azure'' then
            await_costs (azure (body req)) (invoke (AzureFetchCosts (body req)) w)
          else
            (Returned,
             json (JObj [(''success'', JBool False), (''message'', JStr ''Invalid cloud provider.'')])
               (status 400 w)))"

definition fresh :: world where
  "fresh = \<lparr>calls = [], res = \<lparr>statusCode = 200, sent = None\<rparr>\<rparr>"

text \<open>One request to \<open>POST /costs\<close>: the handler on a fresh response.\<close>

definition handle :: "fetchCosts \<Rightarrow> fetchCosts \<Rightarrow> request \<Rightarrow> outcome \<times> world" where
  "handle aws azure req = post_costs aws azure req fresh"

subsection \<open>Sample requests and services\<close>

text \<open>
  The example of the specification: an AWS request with a date range, answered with a
  total; and the same for Azure. \<open>unreachable\<close> is a service whose promise never settles.
\<close>

definition aws_request :: request where
  "aws_request = \<lparr>body = JObj [(''cloudProvider'', JStr ''aws''),
     (''startDate'', JStr ''2024-01-01''), (''endDate'', JStr ''2024-01-31'')]\<rparr>"

definition azure_request :: request where
  "azure_request = \<lparr>body = JObj [(''cloudProvider'', JStr ''azure''),
     (''subscriptionId'', JStr ''sub-1'')]\<rparr>"

definition gcp_request :: request where
  "gcp_request = \<lparr>body = JObj [(''cloudProvider'', JStr ''gcp'')]\<rparr>"

definition empty_request :: request where
  "empty_request = \<lparr>body = JObj []\<rparr>"

definition text_request :: request where
  "text_request = \<lparr>body = JStr ''cloudProvider=aws''\<rparr>"

definition bodyless_request :: request where
  "bodyless_request = \<lparr>body = JUndefined\<rparr>"

definition sample_costs :: jsval where
  "sample_costs = JObj [(''total'', JNum (12345 / 100))]"

definition access_denied :: jsval where
  "access_denied = JObj [(''name'', JStr ''AccessDeniedException''),
     (''message'', JStr ''User is not authorized'')]"

definition resolving :: fetchCosts where
  "resolving b = Resolved sample_costs"

definition rejecting :: fetchCosts where
  "rejecting b = Rejected access_denied"

definition unreachable :: fetchCosts where
  "unreachable b = Pending"



section \<open>The metrics module\<close>

text \<open>
  \<open>metrics.js\<close> calls the third-party client twice at load time. The client is not part
  of the sources; it is modelled by the contract of its registry: a metric is registered
  under its name, and registering a second metric under a name already taken raises.
\<close>

record default_metrics_config =
  timeout :: nat

text \<open>The field \<open>help\<close> of the histogram's configuration is \<open>help_text\<close> here.\<close>

record histogram_config =
  name :: string
  help_text :: string
  labelNames :: "string list"
  buckets :: "nat list"

record registry =
  collectors :: "default_metrics_config list"
  metrics :: "histogram_config list"

datatype client_error = AlreadyRegistered string

text \<open>
  What \<open>collectDefaultMetrics\<close> does on a registry whose default collectors are already
  running depends on the release of the client, so the module body below takes the
  client's function as a parameter. Two releases are given. From release 12 on the
  default metrics are registered again under their names, and the first of them,
  \<open>process_cpu_user_seconds_total\<close>, is refused. Release 11 unregisters the default
  metrics first and restarts its timer, and does not raise.
\<close>

type_synonym collect = "default_metrics_config \<Rightarrow> registry \<Rightarrow> (client_error + unit) \<times> registry"

definition collectDefaultMetrics :: collect where
  "collectDefaultMetrics cfg reg =
     (if collectors reg = []
      then (Inr (), reg\<lparr>collectors := [cfg]\<rparr>)
      else (Inl (AlreadyRegistered ''process_cpu_user_seconds_total''), reg))"

definition collectDefaultMetrics_11 :: collect where
  "collectDefaultMetrics_11 cfg reg = (Inr (), reg\<lparr>collectors := [cfg]\<rparr>)"

definition Histogram :: "histogram_config \<Rightarrow> registry \<Rightarrow> (client_error + histogram_config) \<times> registry" where
  "Histogram cfg reg =
     (if name cfg \<in> set (map name (metrics reg))
      then (Inl (AlreadyRegistered (name cfg)), reg)
      else (Inr cfg, reg\<lparr>metrics := metrics reg @ [cfg]\<rparr>))"

record exports =
  httpRequestDurationMicroseconds :: histogram_config

text \<open>
  The body of the module, run against a registry: the default collectors first, then the
  histogram; what is exported when neither call raises. An exception of the first call
  ends the module before the second.
\<close>

definition registration_path :: "collect \<Rightarrow> registry \<Rightarrow> (client_error + exports) \<times> registry" where
  "registration_path collect reg =
     (case collect \<lparr>timeout = 5000\<rparr> reg of
        (Inl e, reg1) \<Rightarrow> (Inl e, reg1)
      | (Inr u, reg1) \<Rightarrow>
          (case Histogram
                  \<lparr>name = ''http_request_duration_ms'',
                   help_text = ''Duration of HTTP requests in ms'',
                   labelNames = [''method'', ''route'', ''code''],
                   buckets = [50, 100, 200, 300, 400, 500, 750, 1000, 2500, 5000, 10000]\<rparr> reg1 of
             (Inl e, reg2) \<Rightarrow> (Inl e, reg2)
           | (Inr h, reg2) \<Rightarrow> (Inr \<lparr>httpRequestDurationMicroseconds = h\<rparr>, reg2)))"

text \<open>The module with the client as it is from release 12 on.\<close>

definition metrics_module :: "registry \<Rightarrow> (client_error + exports) \<times> registry" where
  "metrics_module reg = registration_path collectDefaultMetrics reg"

definition empty_registry :: registry where
  "empty_registry = \<lparr>collectors = [], metrics = []\<rparr>"

text \<open>
  The registry after the module has been loaded once into an empty one, with either
  release of the client.
\<close>

definition loaded_once :: registry where
  "loaded_once = snd (metrics_module empty_registry)"

definition loaded_once_11 :: registry where
  "loaded_once_11 = snd (registration_path collectDefaultMetrics_11 empty_registry)"

section \<open>The deployment script\<close>

text \<open>
  The commands of the script whose exit status matters. \<open>Echo n\<close> is the \<open>echo\<close> on
  line \<open>n\<close> of the script's source; \<open>Subst_X\<close> is the assignment \<open>X=$(...)\<close>, whose
  status is that of the command substitution. Plain assignments of literals cannot fail
  and are left out.
\<close>

datatype lambda_fn = Fetcher | Shutdown

datatype policy = Managed | Custom

datatype cmd =
    Subst_SCRIPT_DIR
  | Subst_PROJECT_ROOT
  | Cd_PROJECT_ROOT
  | Echo nat
  | Aws_s3_ls
  | Grep_NoSuchBucket
  | Aws_s3_mb
  | Aws_iam_get_role
  | Aws_iam_create_role
  | Aws_iam_list_attached_role_policies policy
  | Grep_dot policy
  | Aws_iam_attach_role_policy policy
  | Subst_ACCOUNT_ID
  | Aws_iam_get_policy
  | Aws_iam_create_policy
  | Subst_ROLE_ARN
  | Sleep_10
  | Zip lambda_fn
  | Aws_s3_cp lambda_fn
  | Rm lambda_fn
  | Aws_lambda_get_function lambda_fn
  | Aws_lambda_update_function_code lambda_fn
  | Aws_lambda_create_function lambda_fn

text \<open>
  The environment decides which commands exit with status 0. Every command of the script
  is executed at most once, so a function of the command is enough.
\<close>

type_synonym env = "cmd \<Rightarrow> bool"

text \<open>
  The log of a run tells a command executed as a statement of its own (\<open>Ran\<close>) from one
  executed inside the condition of an \<open>if\<close> (\<open>Tested\<close>).
\<close>

datatype event = Ran cmd | Tested cmd

record shell =
  trace :: "event list"
  errexit :: bool
  aborted :: bool

type_synonym step = "shell \<Rightarrow> shell"

type_synonym cond = "shell \<Rightarrow> bool \<times> shell"

text \<open>\<open>set -e\<close>.\<close>

definition set_e :: step where
  "set_e s = (if aborted s then s else s\<lparr>errexit := True\<rparr>)"

text \<open>
  A simple command: under \<open>errexit\<close> the shell exits when it fails. After the exit
  nothing runs any more.
\<close>

definition run :: "env \<Rightarrow> cmd \<Rightarrow> step" where
  "run env c s =
     (if aborted s then s
      else s\<lparr>trace := trace s @ [Ran c], aborted := errexit s \<and> \<not> env c\<rparr>)"

definition seq :: "step list \<Rightarrow> step" where
  "seq fs s = fold (\<lambda>f. f) fs s"

text \<open>
  The condition of an \<open>if\<close>: a pipeline \<open>c\<^sub>1 | ... | c\<^sub>n | c\<close>. All its commands run,
  its status is that of the last one (\<open>pipefail\<close> is not set), and \<open>errexit\<close> does not
  apply inside a condition. \<open>negated\<close> is the \<open>!\<close> in front of it.
\<close>

definition pipeline :: "env \<Rightarrow> cmd list \<Rightarrow> cmd \<Rightarrow> cond" where
  "pipeline env cs c s = (env c, s\<lparr>trace := trace s @ map Tested (cs @ [c])\<rparr>)"

definition negated :: "cond \<Rightarrow> cond" where
  "negated p s = (case p s of (b, s') \<Rightarrow> (\<not> b, s'))"

definition if_then_else :: "cond \<Rightarrow> step \<Rightarrow> step \<Rightarrow> step" where
  "if_then_else p t e s =
     (if aborted s then s
      else case p s of (b, s') \<Rightarrow> if b then t s' else e s')"

text \<open>Step 1/6: the S3 bucket.\<close>

definition step1 :: "env \<Rightarrow> step" where
  "step1 env = seq
     [run env (Echo 72),
      if_then_else (pipeline env [Aws_s3_ls] Grep_NoSuchBucket)
        (seq [run env Aws_s3_mb, run env (Echo 75)])
        (run env (Echo 77))]"

text \<open>Step 2/6: the IAM role, its two policies, the role's ARN, the wait.\<close>

definition step2 :: "env \<Rightarrow> step" where
  "step2 env = seq
     [run env (Echo 81),
      if_then_else (negated (pipeline env [] Aws_iam_get_role))
        (seq [run env Aws_iam_create_role, run env (Echo 128)])
        (run env (Echo 130)),
      if_then_else
        (negated (pipeline env [Aws_iam_list_attached_role_policies Managed] (Grep_dot Managed)))
        (seq [run env (Echo 136), run env (Aws_iam_attach_role_policy Managed)])
        (run env (Echo 139)),
      run env Subst_ACCOUNT_ID,
      if_then_else (negated (pipeline env [] Aws_iam_get_policy))
        (seq [run env (Echo 148), run env Aws_iam_create_policy])
        (run env (Echo 151)),
      if_then_else
        (negated (pipeline env [Aws_iam_list_attached_role_policies Custom] (Grep_dot Custom)))
        (seq [run env (Echo 155), run env (Aws_iam_attach_role_policy Custom)])
        (run env (Echo 158)),
      run env (Echo 161),
      run env Subst_ROLE_ARN,
      run env (Echo 165),
      run env (Echo 168),
      run env Sleep_10]"

text \<open>Steps 3/6 and 4/6: package, upload, create or update the fetcher function.\<close>

definition step3 :: "env \<Rightarrow> step" where
  "step3 env = seq
     [run env (Echo 172),
      run env (Zip Fetcher),
      run env (Aws_s3_cp Fetcher),
      run env (Rm Fetcher),
      run env (Echo 176)]"

definition step4 :: "env \<Rightarrow> step" where
  "step4 env = seq
     [run env (Echo 179),
      if_then_else (pipeline env [] (Aws_lambda_get_function Fetcher))
        (seq [run env (Echo 181), run env (Aws_lambda_update_function_code Fetcher)])
        (seq [run env (Echo 184), run env (Aws_lambda_create_function Fetcher)])]"

text \<open>Steps 5/6 and 6/6: the same for the shutdown function.\<close>

definition step5 :: "env \<Rightarrow> step" where
  "step5 env = seq
     [run env (Echo 198),
      run env (Zip Shutdown),
      run env (Aws_s3_cp Shutdown),
      run env (Rm Shutdown),
      run env (Echo 202)]"

definition step6 :: "env \<Rightarrow> step" where
  "step6 env = seq
     [run env (Echo 205),
      if_then_else (pipeline env [] (Aws_lambda_get_function Shutdown))
        (seq [run env (Echo 207), run env (Aws_lambda_update_function_code Shutdown)])
        (seq [run env (Echo 210), run env (Aws_lambda_create_function Shutdown)])]"

definition summary :: "env \<Rightarrow> step" where
  "summary env = seq (map (\<lambda>n. run env (Echo n)) [223, 224, 225, 226, 227, 228, 229, 230, 231, 232])"

definition script :: "env \<Rightarrow> step" where
  "script env = seq
     [set_e,
      run env Subst_SCRIPT_DIR,
      run env Subst_PROJECT_ROOT,
      run env Cd_PROJECT_ROOT,
      run env (Echo 69),
      step1 env, step2 env, step3 env, step4 env, step5 env, step6 env,
      summary env]"

definition start :: shell where
  "start = \<lparr>trace = [], errexit = False, aborted = False\<rparr>"

definition deploy :: "env \<Rightarrow> shell" where
  "deploy env = script env start"

subsection \<open>Sample environments\<close>

text \<open>
  A first deployment: nothing exists yet, so every existence probe fails (\<open>aws s3 ls\<close>
  fails with NoSuchBucket, which \<open>grep\<close> then finds) and every other command succeeds.
\<close>

definition first_deployment :: env where
  "first_deployment c =
     (c \<notin> {Aws_s3_ls, Aws_iam_get_role, Grep_dot Managed, Aws_iam_get_policy, Grep_dot Custom,
            Aws_lambda_get_function Fetcher, Aws_lambda_get_function Shutdown})"

text \<open>
  A later deployment: the bucket exists, so \<open>grep\<close> finds no NoSuchBucket; the upload of
  the fetcher archive fails.
\<close>

definition upload_fails :: env where
  "upload_fails c = (c \<notin> {Grep_NoSuchBucket, Aws_s3_cp Fetcher})"

text \<open>A run in which only the probe for the IAM role fails: the role does not exist yet.\<close>

definition role_missing :: env where
  "role_missing c = (c \<noteq> Aws_iam_get_role)"

subsection \<open>The invariant of a run\<close>

text \<open>
  A log is clean when every command it ran as a statement succeeded. Under \<open>errexit\<close> a
  run that has not aborted has a clean log, and a run that has aborted has a clean log
  followed by the one failed statement.
\<close>

definition clean :: "env \<Rightarrow> event list \<Rightarrow> bool" where
  "clean env t = (\<forall>c. Ran c \<in> set t \<longrightarrow> env c)"

definition inv :: "env \<Rightarrow> shell \<Rightarrow> bool" where
  "inv env s =
     (errexit s \<and>
      (if aborted s
       then \<exists>pre c. trace s = pre @ [Ran c] \<and> \<not> env c \<and> clean env pre
       else clean env (trace s)))"

definition preserves :: "env \<Rightarrow> step \<Rightarrow> bool" where
  "preserves env f = (\<forall>s. inv env s \<longrightarrow> inv env (f s))"

definition cond_ok :: "env \<Rightarrow> cond \<Rightarrow> bool" where
  "cond_ok env p =
     (\<forall>s. inv env s \<and> \<not> aborted s \<longrightarrow> inv env (snd (p s)) \<and> \<not> aborted (snd (p s)))"

section \<open>Properties of the cost router\<close>

lemmas router_defs =
  handle_def post_costs_def await_costs_def respond_costs_def catch_block_def
  fresh_def status_def json_def invoke_def

text \<open>
  C1. When \<open>cloudProvider\<close> is the string \<open>aws\<close>, the only service invoked is the AWS
  one: the log holds that single call, and the request's result does not depend on the
  Azure service at all. Symmetrically for \<open>azure\<close>.
\<close>

theorem dispatch_exclusive:
  "(get_prop (body req) ''cloudProvider'' = Inr (JStr ''aws'') \<longrightarrow>
      calls (snd (handle aws azure req)) = [AwsFetchCosts (body req)] \<and>
      (\<forall>azure'. handle aws azure' req = handle aws azure req)) \<and>
   (get_prop (body req) ''cloudProvider'' = Inr (JStr ''azure'') \<longrightarrow>
      calls (snd (handle aws azure req)) = [AzureFetchCosts (body req)] \<and>
      (\<forall>aws'. handle aws' azure req = handle aws azure req))"
  by (auto simp: router_defs Let_def split: settle.splits sum.splits)

theorem dispatch_exclusive_witness:
  "get_prop (body aws_request) ''cloudProvider'' = Inr (JStr ''aws'') \<and>
   calls (snd (handle resolving unreachable aws_request)) = [AwsFetchCosts (body aws_request)] \<and>
   handle resolving rejecting aws_request = handle resolving unreachable aws_request \<and>
   get_prop (body azure_request) ''cloudProvider'' = Inr (JStr ''azure'') \<and>
   calls (snd (handle unreachable rejecting azure_request)) = [AzureFetchCosts (body azure_request)] \<and>
   handle resolving rejecting azure_request = handle unreachable rejecting azure_request"
proof -
  have a: "get_prop (body aws_request) ''cloudProvider'' = Inr (JStr ''aws'')"
    by (simp add: aws_request_def)
  have z: "get_prop (body azure_request) ''cloudProvider'' = Inr (JStr ''azure'')"
    by (simp add: azure_request_def)
  from a dispatch_exclusive [of aws_request resolving unreachable]
  have "calls (snd (handle resolving unreachable aws_request)) = [AwsFetchCosts (body aws_request)]"
    and "handle resolving rejecting aws_request = handle resolving unreachable aws_request"
    by blast+
  moreover from z dispatch_exclusive [of azure_request unreachable rejecting]
  have "calls (snd (handle unreachable rejecting azure_request)) = [AzureFetchCosts (body azure_request)]"
    and "handle resolving rejecting azure_request = handle unreachable rejecting azure_request"
    by blast+
  ultimately show ?thesis using a z by simp
qed

text \<open>
  C2. When the body can be destructured and its \<open>cloudProvider\<close> is missing
  (\<open>undefined\<close>) or is any value other than the strings \<open>aws\<close> and \<open>azure\<close>, the handler
  answers status 400 with exactly \<open>{success: false, message: 'Invalid cloud provider.'}\<close>
  and invokes no service.
\<close>

theorem invalid_provider_400:
  assumes "get_prop (body req) ''cloudProvider'' = Inr v"
    and "v \<noteq> JStr ''aws''" and "v \<noteq> JStr ''azure''"
  shows "handle aws azure req =
     (Returned,
      \<lparr>calls = [],
       res = \<lparr>statusCode = 400,
              sent = Some (JObj [(''success'', JBool False),
                                 (''message'', JStr ''Invalid cloud provider.'')])\<rparr>\<rparr>)"
  using assms by (simp add: router_defs)

theorem invalid_provider_400_witness:
  "get_prop (body empty_request) ''cloudProvider'' = Inr JUndefined \<and>
   handle resolving rejecting empty_request =
     (Returned,
      \<lparr>calls = [],
       res = \<lparr>statusCode = 400,
              sent = Some (JObj [(''success'', JBool False),
                                 (''message'', JStr ''Invalid cloud provider.'')])\<rparr>\<rparr>) \<and>
   get_prop (body gcp_request) ''cloudProvider'' = Inr (JStr ''gcp'') \<and>
   handle resolving rejecting gcp_request =
     (Returned,
      \<lparr>calls = [],
       res = \<lparr>statusCode = 400,
              sent = Some (JObj [(''success'', JBool False),
                                 (''message'', JStr ''Invalid cloud provider.'')])\<rparr>\<rparr>)"
proof -
  have e: "get_prop (body empty_request) ''cloudProvider'' = Inr JUndefined"
    by (simp add: empty_request_def)
  have g: "get_prop (body gcp_request) ''cloudProvider'' = Inr (JStr ''gcp'')"
    by (simp add: gcp_request_def)
  show ?thesis
    using e g
      invalid_provider_400 [OF e, of resolving rejecting]
      invalid_provider_400 [OF g, of resolving rejecting]
    by simp
qed

text \<open>
  C3. With a valid provider, when the invoked service resolves with \<open>V\<close>, the handler
  answers status 200 with exactly \<open>{success: true, costs: V}\<close>, after that one call.
\<close>

theorem resolved_200:
  "(get_prop (body req) ''cloudProvider'' = Inr (JStr ''aws'') \<and>
    aws (body req) = Resolved V \<longrightarrow>
      handle aws azure req =
        (Returned,
         \<lparr>calls = [AwsFetchCosts (body req)],
          res = \<lparr>statusCode = 200,
                 sent = Some (JObj [(''success'', JBool True), (''costs'', V)])\<rparr>\<rparr>)) \<and>
   (get_prop (body req) ''cloudProvider'' = Inr (JStr ''azure'') \<and>
    azure (body req) = Resolved V \<longrightarrow>
      handle aws azure req =
        (Returned,
         \<lparr>calls = [AzureFetchCosts (body req)],
          res = \<lparr>statusCode = 200,
                 sent = Some (JObj [(''success'', JBool True), (''costs'', V)])\<rparr>\<rparr>))"
  by (simp add: router_defs)

theorem resolved_200_witness:
  "get_prop (body aws_request) ''cloudProvider'' = Inr (JStr ''aws'') \<and>
   resolving (body aws_request) = Resolved sample_costs \<and>
   handle resolving rejecting aws_request =
     (Returned,
      \<lparr>calls = [AwsFetchCosts (body aws_request)],
       res = \<lparr>statusCode = 200,
              sent = Some (JObj [(''success'', JBool True), (''costs'', sample_costs)])\<rparr>\<rparr>) \<and>
   get_prop (body azure_request) ''cloudProvider'' = Inr (JStr ''azure'') \<and>
   resolving (body azure_request) = Resolved sample_costs \<and>
   handle rejecting resolving azure_request =
     (Returned,
      \<lparr>calls = [AzureFetchCosts (body azure_request)],
       res = \<lparr>statusCode = 200,
              sent = Some (JObj [(''success'', JBool True), (''costs'', sample_costs)])\<rparr>\<rparr>)"
proof -
  have a: "get_prop (body aws_request) ''cloudProvider'' = Inr (JStr ''aws'')"
    by (simp add: aws_request_def)
  have z: "get_prop (body azure_request) ''cloudProvider'' = Inr (JStr ''azure'')"
    by (simp add: azure_request_def)
  have r: "resolving (body aws_request) = Resolved sample_costs"
    "resolving (body azure_request) = Resolved sample_costs"
    by (simp_all add: resolving_def)
  show ?thesis
    using a z r
      resolved_200 [of aws_request resolving sample_costs rejecting]
      resolved_200 [of azure_request rejecting sample_costs resolving]
    by simp
qed

text \<open>
  C4. With a valid provider, when the invoked service rejects with an error whose
  \<open>message\<close> is \<open>M\<close>, the handler answers status 500 with exactly
  \<open>{success: false, message: M}\<close>. The service was called once (no retry) and \<open>M\<close> is
  passed on as it is.
\<close>

theorem rejected_500:
  "(get_prop (body req) ''cloudProvider'' = Inr (JStr ''aws'') \<and>
    aws (body req) = Rejected error \<and> get_prop error ''message'' = Inr M \<longrightarrow>
      handle aws azure req =
        (Returned,
         \<lparr>calls = [AwsFetchCosts (body req)],
          res = \<lparr>statusCode = 500,
                 sent = Some (JObj [(''success'', JBool False), (''message'', M)])\<rparr>\<rparr>)) \<and>
   (get_prop (body req) ''cloudProvider'' = Inr (JStr ''azure'') \<and>
    azure (body req) = Rejected error \<and> get_prop error ''message'' = Inr M \<longrightarrow>
      handle aws azure req =
        (Returned,
         \<lparr>calls = [AzureFetchCosts (body req)],
          res = \<lparr>statusCode = 500,
                 sent = Some (JObj [(''success'', JBool False), (''message'', M)])\<rparr>\<rparr>))"
  by (simp add: router_defs)

theorem rejected_500_witness:
  "get_prop (body aws_request) ''cloudProvider'' = Inr (JStr ''aws'') \<and>
   rejecting (body aws_request) = Rejected access_denied \<and>
   get_prop access_denied ''message'' = Inr (JStr ''User is not authorized'') \<and>
   handle rejecting resolving aws_request =
     (Returned,
      \<lparr>calls = [AwsFetchCosts (body aws_request)],
       res = \<lparr>statusCode = 500,
              sent = Some (JObj [(''success'', JBool False),
                                 (''message'', JStr ''User is not authorized'')])\<rparr>\<rparr>) \<and>
   get_prop (body azure_request) ''cloudProvider'' = Inr (JStr ''azure'') \<and>
   rejecting (body azure_request) = Rejected access_denied \<and>
   handle resolving rejecting azure_request =
     (Returned,
      \<lparr>calls = [AzureFetchCosts (body azure_request)],
       res = \<lparr>statusCode = 500,
              sent = Some (JObj [(''success'', JBool False),
                                 (''message'', JStr ''User is not authorized'')])\<rparr>\<rparr>)"
proof -
  have a: "get_prop (body aws_request) ''cloudProvider'' = Inr (JStr ''aws'')"
    by (simp add: aws_request_def)
  have z: "get_prop (body azure_request) ''cloudProvider'' = Inr (JStr ''azure'')"
    by (simp add: azure_request_def)
  have r: "rejecting (body aws_request) = Rejected access_denied"
    "rejecting (body azure_request) = Rejected access_denied"
    by (simp_all add: rejecting_def)
  have m: "get_prop access_denied ''message'' = Inr (JStr ''User is not authorized'')"
    by (simp add: access_denied_def)
  show ?thesis
    using a z r m
      rejected_500 [of aws_request rejecting access_denied "JStr ''User is not authorized''" resolving]
      rejected_500 [of azure_request resolving access_denied "JStr ''User is not authorized''" rejecting]
    by simp
qed

text \<open>
  C5. With \<open>cloudProvider\<close> \<open>aws\<close> or \<open>azure\<close>, the argument of the selected service is
  the request body itself, with \<open>cloudProvider\<close> and every other field in it; the handler
  consults the service at that argument only, and checks nothing but the discriminator:
  whatever else the body holds, the call is made.
\<close>

theorem body_passed_through:
  "(get_prop (body req) ''cloudProvider'' = Inr (JStr ''aws'') \<longrightarrow>
      calls (snd (handle aws azure req)) = [AwsFetchCosts (body req)] \<and>
      (\<forall>aws'. aws' (body req) = aws (body req) \<longrightarrow> handle aws' azure req = handle aws azure req)) \<and>
   (get_prop (body req) ''cloudProvider'' = Inr (JStr ''azure'') \<longrightarrow>
      calls (snd (handle aws azure req)) = [AzureFetchCosts (body req)] \<and>
      (\<forall>azure'. azure' (body req) = azure (body req) \<longrightarrow> handle aws azure' req = handle aws azure req))"
  by (auto simp: router_defs Let_def split: settle.splits sum.splits)

theorem body_passed_through_witness:
  "get_prop (body aws_request) ''cloudProvider'' = Inr (JStr ''aws'') \<and>
   calls (snd (handle rejecting unreachable aws_request)) =
     [AwsFetchCosts (JObj [(''cloudProvider'', JStr ''aws''),
        (''startDate'', JStr ''2024-01-01''), (''endDate'', JStr ''2024-01-31'')])] \<and>
   get_prop (body azure_request) ''cloudProvider'' = Inr (JStr ''azure'') \<and>
   calls (snd (handle unreachable resolving azure_request)) =
     [AzureFetchCosts (JObj [(''cloudProvider'', JStr ''azure''),
        (''subscriptionId'', JStr ''sub-1'')])]"
proof -
  have a: "get_prop (body aws_request) ''cloudProvider'' = Inr (JStr ''aws'')"
    by (simp add: aws_request_def)
  have z: "get_prop (body azure_request) ''cloudProvider'' = Inr (JStr ''azure'')"
    by (simp add: azure_request_def)
  have "calls (snd (handle rejecting unreachable aws_request)) = [AwsFetchCosts (body aws_request)]"
    using a body_passed_through [of aws_request rejecting unreachable] by blast
  moreover
  have "calls (snd (handle unreachable resolving azure_request)) = [AzureFetchCosts (body azure_request)]"
    using z body_passed_through [of azure_request unreachable resolving] by blast
  ultimately show ?thesis
    using a z by (simp add: aws_request_def azure_request_def)
qed

text \<open>
  C9, as stated, fails: a body that is not an object need not make the handler throw. A
  string body (a text body parser produces one) is destructured without error,
  \<open>cloudProvider\<close> is \<open>undefined\<close>, and the handler answers 400.
\<close>

theorem text_body_counterexample:
  "\<not> is_object (body text_request) \<and>
   handle resolving rejecting text_request =
     (Returned,
      \<lparr>calls = [],
       res = \<lparr>statusCode = 400,
              sent = Some (JObj [(''success'', JBool False),
                                 (''message'', JStr ''Invalid cloud provider.'')])\<rparr>\<rparr>)"
  by (simp add: is_object_def text_request_def router_defs)

text \<open>
  C9, amended. The destructuring stands before the \<open>try\<close> block, so when the body is
  \<open>undefined\<close> (no body parser produced one) or \<open>null\<close>, the handler throws a TypeError
  that nothing catches: no service is invoked and nothing is sent, neither the 400 nor
  the 500 body.
\<close>

theorem missing_body_throws:
  "body req = JUndefined \<or> body req = JNull \<Longrightarrow>
     handle aws azure req = (Threw TypeError, fresh) \<and> sent (res fresh) = None \<and> calls fresh = []"
  by (auto simp: router_defs)

theorem missing_body_throws_witness:
  "body bodyless_request = JUndefined \<and>
   handle resolving rejecting bodyless_request = (Threw TypeError, fresh) \<and>
   sent (res fresh) = None \<and> calls fresh = []"
  using missing_body_throws [of bodyless_request resolving rejecting]
  by (simp add: bodyless_request_def)




section \<open>Properties of the metrics module\<close>

lemmas metrics_defs =
  metrics_module_def registration_path_def collectDefaultMetrics_def collectDefaultMetrics_11_def
  Histogram_def empty_registry_def loaded_once_def loaded_once_11_def

text \<open>
  C7. Loaded into an empty registry, the module registers exactly one histogram; its name
  is \<open>http_request_duration_ms\<close>, its label names are \<open>method\<close>, \<open>route\<close> and \<open>code\<close>, its
  bucket boundaries are 50, 100, 200, 300, 400, 500, 750, 1000, 2500, 5000 and 10000; that
  histogram is the one exported; and the default collectors are started once, with an
  interval of 5000 ms, that is 5 seconds.
\<close>

theorem registration:
  "length (metrics (snd (metrics_module empty_registry))) = 1 \<and>
   map name (metrics (snd (metrics_module empty_registry))) = [''http_request_duration_ms''] \<and>
   map (\<lambda>h. set (labelNames h)) (metrics (snd (metrics_module empty_registry))) =
     [{''method'', ''route'', ''code''}] \<and>
   map buckets (metrics (snd (metrics_module empty_registry))) =
     [[50, 100, 200, 300, 400, 500, 750, 1000, 2500, 5000, 10000]] \<and>
   map (\<lambda>h. Inr \<lparr>httpRequestDurationMicroseconds = h\<rparr>)
       (metrics (snd (metrics_module empty_registry))) = [fst (metrics_module empty_registry)] \<and>
   map timeout (collectors (snd (metrics_module empty_registry))) = [5 * 1000]"
  by (simp add: metrics_defs Let_def)

text \<open>
  C6, as stated, fails: run a second time on the registry the first run left behind, the
  registration path raises. With the client from release 12 on it is the default
  collectors that are refused; with release 11 it is the histogram, whose name is taken.
\<close>

theorem second_registration_counterexample:
  "fst (registration_path collectDefaultMetrics loaded_once) =
     Inl (AlreadyRegistered ''process_cpu_user_seconds_total'') \<and>
   fst (registration_path collectDefaultMetrics_11 loaded_once_11) =
     Inl (AlreadyRegistered ''http_request_duration_ms'')"
  by (simp add: metrics_defs)

text \<open>
  C6, amended. Registration is made once: the first run, on an empty registry, does not
  raise and leaves one histogram with exactly the bucket boundaries 50, 100, 200, 300,
  400, 500, 750, 1000, 2500, 5000, 10000. The module has no guard against a repeated run:
  on any registry that already holds \<open>http_request_duration_ms\<close>, and with any client
  whose default collection leaves the registered metrics in place, the registration path
  raises an already-registered error, from the one call or the other, and the registered
  metrics, with their buckets, stay as they were.
\<close>

theorem registration_once:
  "(\<exists>e. fst (registration_path collectDefaultMetrics empty_registry) = Inr e) \<and>
   (\<exists>e. fst (registration_path collectDefaultMetrics_11 empty_registry) = Inr e) \<and>
   map buckets (metrics (snd (registration_path collectDefaultMetrics empty_registry))) =
     [[50, 100, 200, 300, 400, 500, 750, 1000, 2500, 5000, 10000]] \<and>
   map buckets (metrics (snd (registration_path collectDefaultMetrics_11 empty_registry))) =
     [[50, 100, 200, 300, 400, 500, 750, 1000, 2500, 5000, 10000]] \<and>
   (''http_request_duration_ms'' \<in> set (map name (metrics reg)) \<and>
    metrics (snd (collect \<lparr>timeout = 5000\<rparr> reg)) = metrics reg \<longrightarrow>
      (\<exists>n. fst (registration_path collect reg) = Inl (AlreadyRegistered n)) \<and>
      metrics (snd (registration_path collect reg)) = metrics reg)"
proof -
  have first: "(\<exists>e. fst (registration_path collectDefaultMetrics empty_registry) = Inr e) \<and>
     (\<exists>e. fst (registration_path collectDefaultMetrics_11 empty_registry) = Inr e) \<and>
     map buckets (metrics (snd (registration_path collectDefaultMetrics empty_registry))) =
       [[50, 100, 200, 300, 400, 500, 750, 1000, 2500, 5000, 10000]] \<and>
     map buckets (metrics (snd (registration_path collectDefaultMetrics_11 empty_registry))) =
       [[50, 100, 200, 300, 400, 500, 750, 1000, 2500, 5000, 10000]]"
    by (simp add: metrics_defs)
  have again: "(\<exists>n. fst (registration_path collect reg) = Inl (AlreadyRegistered n)) \<and>
      metrics (snd (registration_path collect reg)) = metrics reg"
    if held: "''http_request_duration_ms'' \<in> set (map name (metrics reg))"
      and kept: "metrics (snd (collect \<lparr>timeout = 5000\<rparr> reg)) = metrics reg"
  proof (cases "collect \<lparr>timeout = 5000\<rparr> reg")
    case (Pair r reg1)
    with kept have m: "metrics reg1 = metrics reg" by simp
    show ?thesis
    proof (cases r)
      case (Inl e)
      obtain n where "e = AlreadyRegistered n" by (cases e)
      with Pair Inl m show ?thesis by (simp add: registration_path_def)
    next
      case (Inr u)
      with Pair m held show ?thesis by (simp add: registration_path_def Histogram_def)
    qed
  qed
  from first again show ?thesis by blast
qed

theorem registration_once_witness:
  "''http_request_duration_ms'' \<in> set (map name (metrics loaded_once)) \<and>
   metrics (snd (collectDefaultMetrics \<lparr>timeout = 5000\<rparr> loaded_once)) = metrics loaded_once \<and>
   (\<exists>n. fst (registration_path collectDefaultMetrics loaded_once) = Inl (AlreadyRegistered n)) \<and>
   map buckets (metrics (snd (registration_path collectDefaultMetrics loaded_once))) =
     [[50, 100, 200, 300, 400, 500, 750, 1000, 2500, 5000, 10000]] \<and>
   ''http_request_duration_ms'' \<in> set (map name (metrics loaded_once_11)) \<and>
   metrics (snd (collectDefaultMetrics_11 \<lparr>timeout = 5000\<rparr> loaded_once_11)) = metrics loaded_once_11 \<and>
   (\<exists>n. fst (registration_path collectDefaultMetrics_11 loaded_once_11) = Inl (AlreadyRegistered n)) \<and>
   map buckets (metrics (snd (registration_path collectDefaultMetrics_11 loaded_once_11))) =
     [[50, 100, 200, 300, 400, 500, 750, 1000, 2500, 5000, 10000]]"
proof -
  have h: "''http_request_duration_ms'' \<in> set (map name (metrics loaded_once))"
    "''http_request_duration_ms'' \<in> set (map name (metrics loaded_once_11))"
    by (simp_all add: metrics_defs)
  have k: "metrics (snd (collectDefaultMetrics \<lparr>timeout = 5000\<rparr> loaded_once)) = metrics loaded_once"
    "metrics (snd (collectDefaultMetrics_11 \<lparr>timeout = 5000\<rparr> loaded_once_11)) = metrics loaded_once_11"
    by (simp_all add: collectDefaultMetrics_def collectDefaultMetrics_11_def)
  have m: "map buckets (metrics loaded_once) =
       [[50, 100, 200, 300, 400, 500, 750, 1000, 2500, 5000, 10000]]"
    "map buckets (metrics loaded_once_11) =
       [[50, 100, 200, 300, 400, 500, 750, 1000, 2500, 5000, 10000]]"
    using registration_once [of loaded_once collectDefaultMetrics]
    by (simp_all add: loaded_once_def loaded_once_11_def metrics_module_def)
  show ?thesis
    using h k m
      registration_once [of loaded_once collectDefaultMetrics]
      registration_once [of loaded_once_11 collectDefaultMetrics_11]
    by simp
qed

section \<open>Properties of the deployment script\<close>

lemmas step_defs =
  step1_def step2_def step3_def step4_def step5_def step6_def summary_def

lemmas shell_defs =
  seq_def run_def set_e_def pipeline_def negated_def if_then_else_def start_def

lemma clean_append [simp]: "clean env (t @ u) = (clean env t \<and> clean env u)"
  by (auto simp: clean_def)

lemma clean_Ran [simp]: "clean env [Ran c] = env c"
  by (simp add: clean_def)

lemma clean_Tested [simp]: "clean env (map Tested cs)" "clean env [Tested c]"
  by (auto simp: clean_def)

lemma preserves_run: "preserves env (run env c)"
  by (auto simp: preserves_def inv_def run_def)

lemma preserves_seq: "list_all (preserves env) fs \<Longrightarrow> preserves env (seq fs)"
proof (induction fs)
  case Nil
  show ?case by (simp add: preserves_def seq_def)
next
  case (Cons f fs)
  then have f: "preserves env f" and fs: "preserves env (seq fs)" by simp_all
  have "seq (f # fs) s = seq fs (f s)" for s by (simp add: seq_def)
  with f fs show ?case by (simp add: preserves_def)
qed

lemma cond_ok_pipeline: "cond_ok env (pipeline env cs c)"
  by (simp add: cond_ok_def inv_def pipeline_def)

lemma negated_snd: "snd (negated p s) = snd (p s)"
  by (simp add: negated_def split: prod.splits)

lemma cond_ok_negated: "cond_ok env p \<Longrightarrow> cond_ok env (negated p)"
  by (simp add: cond_ok_def negated_snd)

lemma preserves_if:
  assumes "cond_ok env p" and "preserves env t" and "preserves env e"
  shows "preserves env (if_then_else p t e)"
proof -
  have "inv env (if_then_else p t e s)" if s: "inv env s" for s
  proof (cases "aborted s")
    case True
    with s show ?thesis by (simp add: if_then_else_def)
  next
    case False
    with s assms(1) have "inv env (snd (p s))" by (simp add: cond_ok_def)
    with assms(2,3) have "inv env (t (snd (p s)))" "inv env (e (snd (p s)))"
      by (simp_all add: preserves_def)
    with False show ?thesis by (cases "p s") (simp add: if_then_else_def)
  qed
  then show ?thesis by (simp add: preserves_def)
qed

lemmas preserves_intros =
  preserves_run preserves_seq preserves_if cond_ok_pipeline cond_ok_negated

lemma preserves_step1: "preserves env (step1 env)"
  unfolding step1_def by (intro preserves_intros) (simp add: preserves_intros)

lemma preserves_step2: "preserves env (step2 env)"
  unfolding step2_def by (intro preserves_intros) (simp add: preserves_intros)

lemma preserves_step3: "preserves env (step3 env)"
  unfolding step3_def by (intro preserves_intros) (simp add: preserves_intros)

lemma preserves_step4: "preserves env (step4 env)"
  unfolding step4_def by (intro preserves_intros) (simp add: preserves_intros)

lemma preserves_step5: "preserves env (step5 env)"
  unfolding step5_def by (intro preserves_intros) (simp add: preserves_intros)

lemma preserves_step6: "preserves env (step6 env)"
  unfolding step6_def by (intro preserves_intros) (simp add: preserves_intros)

lemma preserves_summary: "preserves env (summary env)"
  unfolding summary_def by (intro preserves_intros) (simp add: preserves_intros)

lemmas preserves_steps =
  preserves_step1 preserves_step2 preserves_step3 preserves_step4 preserves_step5
  preserves_step6 preserves_summary

text \<open>Once \<open>set -e\<close> has run, the invariant holds, and the rest of the script keeps it.\<close>

lemma inv_deploy: "inv env (deploy env)"
proof -
  let ?rest = "[run env Subst_SCRIPT_DIR, run env Subst_PROJECT_ROOT, run env Cd_PROJECT_ROOT,
      run env (Echo 69), step1 env, step2 env, step3 env, step4 env, step5 env, step6 env,
      summary env]"
  have "deploy env = seq ?rest (set_e start)"
    by (simp add: deploy_def script_def seq_def)
  moreover have "inv env (set_e start)"
    by (simp add: inv_def set_e_def start_def clean_def)
  moreover have "preserves env (seq ?rest)"
    by (intro preserves_seq) (simp add: preserves_run preserves_steps)
  ultimately show ?thesis by (simp add: preserves_def)
qed

lemma trace_upload_fails:
  "trace (deploy upload_fails) =
     [Ran Subst_SCRIPT_DIR, Ran Subst_PROJECT_ROOT, Ran Cd_PROJECT_ROOT,
      Ran (Echo 69), Ran (Echo 72), Tested Aws_s3_ls, Tested Grep_NoSuchBucket,
      Ran (Echo 77), Ran (Echo 81),
      Tested Aws_iam_get_role, Ran (Echo 130),
      Tested (Aws_iam_list_attached_role_policies Managed), Tested (Grep_dot Managed),
      Ran (Echo 139), Ran Subst_ACCOUNT_ID, Tested Aws_iam_get_policy, Ran (Echo 151),
      Tested (Aws_iam_list_attached_role_policies Custom), Tested (Grep_dot Custom),
      Ran (Echo 158), Ran (Echo 161), Ran Subst_ROLE_ARN, Ran (Echo 165), Ran (Echo 168),
      Ran Sleep_10, Ran (Echo 172), Ran (Zip Fetcher), Ran (Aws_s3_cp Fetcher)]"
  by (simp add: deploy_def script_def step_defs shell_defs upload_fails_def)

text \<open>
  C8, as stated, fails: not every failing command aborts the script. On a run where the
  IAM role does not exist yet, \<open>aws iam get-role\<close> fails inside the condition of an \<open>if\<close>;
  the script goes on, creates the role, and runs to its last line.
\<close>

theorem probe_failure_counterexample:
  "Tested Aws_iam_get_role \<in> set (trace (deploy role_missing)) \<and>
   \<not> role_missing Aws_iam_get_role \<and>
   \<not> aborted (deploy role_missing) \<and>
   Ran Aws_iam_create_role \<in> set (trace (deploy role_missing)) \<and>
   last (trace (deploy role_missing)) = Ran (Echo 232)"
  by (simp add: deploy_def script_def step_defs shell_defs role_missing_def)

text \<open>
  C8, amended. The script aborts immediately when a command that is not part of an \<open>if\<close>
  condition fails: it aborts exactly when such a command has failed, and that command is
  the last thing the run did, so no later step runs and nothing is rolled back. A command
  that fails inside an \<open>if\<close> condition only selects the branch.
\<close>

theorem deploy_fail_fast:
  "(aborted (deploy env) \<longleftrightarrow> (\<exists>c. Ran c \<in> set (trace (deploy env)) \<and> \<not> env c)) \<and>
   (\<forall>i c. i < length (trace (deploy env)) \<and> trace (deploy env) ! i = Ran c \<and> \<not> env c \<longrightarrow>
      Suc i = length (trace (deploy env)))"
proof (cases "aborted (deploy env)")
  case True
  with inv_deploy [of env] obtain pre c where
    t: "trace (deploy env) = pre @ [Ran c]" and c: "\<not> env c" and pre: "clean env pre"
    by (auto simp: inv_def)
  have "Suc i = length (trace (deploy env))"
    if "i < length (trace (deploy env))" "trace (deploy env) ! i = Ran c'" "\<not> env c'" for i c'
  proof (rule ccontr)
    assume "Suc i \<noteq> length (trace (deploy env))"
    with that(1) t have i: "i < length pre" by simp
    with that(2) t have "Ran c' \<in> set pre" by (metis nth_append nth_mem)
    with pre that(3) show False by (simp add: clean_def)
  qed
  with True t c show ?thesis by auto
next
  case False
  with inv_deploy [of env] have "clean env (trace (deploy env))"
    by (simp add: inv_def)
  with False show ?thesis by (auto simp: clean_def dest: nth_mem)
qed

theorem deploy_fail_fast_witness:
  "Ran (Aws_s3_cp Fetcher) \<in> set (trace (deploy upload_fails)) \<and>
   \<not> upload_fails (Aws_s3_cp Fetcher) \<and>
   aborted (deploy upload_fails) \<and>
   last (trace (deploy upload_fails)) = Ran (Aws_s3_cp Fetcher)"
proof -
  have m: "Ran (Aws_s3_cp Fetcher) \<in> set (trace (deploy upload_fails))"
    by (simp add: trace_upload_fails)
  have f: "\<not> upload_fails (Aws_s3_cp Fetcher)"
    by (simp add: upload_fails_def)
  from m f deploy_fail_fast [of upload_fails] have "aborted (deploy upload_fails)"
    by blast
  with m f show ?thesis by (simp add: trace_upload_fails)
qed

end
